theory Spec2Isabelle
  imports Main
begin

section \<open>Data model\<close>

text \<open>
  The two applications are \<^verbatim>\<open>src/unnamed/part_000\<close> (products only, port 3001) and
  \<^verbatim>\<open>src/index.js\<close> (products and farms, port 3000). Definitions taken from the first
  carry the suffix \<open>_part0\<close>, those taken from the second the suffix \<open>_index\<close>;
  text that is the same in both files is modelled once.

  An identifier is the string of an ObjectId: 24 lower-case hexadecimal digits, as a
  stored \<^verbatim>\<open>_id\<close> prints in a redirect (\<^verbatim>\<open>`/products/${product._id}`\<close>). A path parameter
  (\<^verbatim>\<open>req.params.id\<close>) is any string, and Mongoose casts it to an ObjectId before it
  queries: a canonical string is left as it is, upper-case digits are read as the same
  ObjectId, and a string that does not cast makes the query reject with a CastError. That
  cast is not modelled: the queries below compare the identifier they are given with the
  stored ones, which is what Mongoose does for a canonical string. A statement about a
  route at an identifier of no document is therefore made for canonical identifiers only.
\<close>

type_synonym oid = string

definition hex_digits :: "char list" where
  "hex_digits = ''0123456789abcdef''"

definition canonical_ObjectId :: "string \<Rightarrow> bool" where
  "canonical_ObjectId s = (length s = 24 \<and> list_all (\<lambda>c. c \<in> set hex_digits) s)"

text \<open>
  A JavaScript error value, as far as the middleware reads it: \<^verbatim>\<open>err.name\<close>,
  \<^verbatim>\<open>err.message\<close> and \<^verbatim>\<open>err.status\<close>. \<open>None\<close> is \<^verbatim>\<open>undefined\<close>.
\<close>

record js_error =
  err_name :: string
  err_message :: "string option"
  err_status :: "nat option"

text \<open>
  A Product document. A field that is \<^verbatim>\<open>undefined\<close> or \<^verbatim>\<open>null\<close> is \<open>None\<close>.
\<close>

record product =
  p_id :: oid
  p_name :: "string option"
  p_price :: "int option"
  p_category :: "string option"
  p_farm :: "oid option"

record farm =
  f_id :: oid
  f_name :: string
  f_city :: string
  f_email :: string
  f_products :: "oid list"

text \<open>
  The parsed form body \<^verbatim>\<open>req.body\<close>. A field the form does not send is \<open>None\<close>. The price
  is taken after Mongoose's cast to a number, which gives \<^verbatim>\<open>null\<close> for a price sent empty:
  \<open>Some None\<close>. A price that is not a number is outside the model.
\<close>

record body =
  b_name :: "string option"
  b_price :: "int option option"
  b_category :: "string option"
  b_farm :: "oid option"

text \<open>
  The database: the two collections in insertion order, and the list of the
  \<^verbatim>\<open>Product.deleteMany\<close> calls issued so far (the argument of \<^verbatim>\<open>$in\<close> of each).
\<close>

record db =
  products :: "product list"
  farms :: "farm list"
  deleteMany_calls :: "oid list list"

text \<open>What a handler writes to \<^verbatim>\<open>res\<close>.\<close>

datatype view_data =
    ProductsIndex "product list" string
  | ProductDetails "product option"
  | ProductDetailsFarm "(product \<times> string option) option"
  | ProductEdit product "string list"

datatype response =
    Render string view_data
  | Redirect string
  | Send nat string

text \<open>
  What one invocation of an \<^verbatim>\<open>async (req, res, next)\<close> handler does: it writes a
  response, it calls \<^verbatim>\<open>next(err)\<close>, or its promise rejects.
\<close>

datatype outcome =
    Responded response
  | Next js_error
  | Rejected js_error

text \<open>
  What the client gets: a response, or none when a rejection reaches nobody.
\<close>

datatype http_result =
    Replied response
  | Unhandled js_error

section \<open>The JavaScript runtime\<close>

text \<open>
  The errors the engine raises by itself. The wording of the messages is V8's and depends
  on its version; what the middleware depends on is that the message is a string, never
  \<^verbatim>\<open>undefined\<close>.
\<close>

definition ReferenceError :: "string \<Rightarrow> js_error" where
  "ReferenceError ident =
     \<lparr>err_name = ''ReferenceError'',
      err_message = Some (ident @ '' is not defined''),
      err_status = None\<rparr>"

text \<open>
  Reading a property of \<^verbatim>\<open>null\<close>. The two wordings of the message: that of V8 since
  version 9.3 (Node 16.9), and the earlier one.
\<close>

definition null_read_message :: "string \<Rightarrow> string" where
  "null_read_message prop =
     ''Cannot read properties of null (reading '' @ [CHR 0x27] @ prop @ [CHR 0x27] @ '')''"

definition null_read_message_before_9_3 :: "string \<Rightarrow> string" where
  "null_read_message_before_9_3 prop =
     ''Cannot read property '' @ [CHR 0x27] @ prop @ [CHR 0x27] @ '' of null''"

definition TypeError_of_null :: "string \<Rightarrow> js_error" where
  "TypeError_of_null prop =
     \<lparr>err_name = ''TypeError'',
      err_message = Some (null_read_message prop),
      err_status = None\<rparr>"

text \<open>A destructuring default \<^verbatim>\<open>{ x = d } = obj\<close>: the default stands in for \<^verbatim>\<open>undefined\<close> only.\<close>

definition dflt :: "'a \<Rightarrow> 'a option \<Rightarrow> 'a" where
  "dflt d v = (case v of None \<Rightarrow> d | Some x \<Rightarrow> x)"

text \<open>A value interpolated in a template literal.\<close>

definition interpolate :: "string option \<Rightarrow> string" where
  "interpolate v = (case v of None \<Rightarrow> ''undefined'' | Some s \<Rightarrow> s)"

section \<open>The application error\<close>

text \<open>
  Modelled from the spec: the module \<^verbatim>\<open>./AppError\<close>, required by \<^verbatim>\<open>part_000\<close> and absent
  from the sources. The spec calls it a generic application error that carries an HTTP
  status and a message; its name is not \<^verbatim>\<open>ValidationError\<close>.
\<close>

definition AppError :: "string \<Rightarrow> nat \<Rightarrow> js_error" where
  "AppError msg st = \<lparr>err_name = ''Error'', err_message = Some msg, err_status = Some st\<rparr>"

text \<open>
  Evaluating \<^verbatim>\<open>new AppError(msg, st)\<close>. The handlers and the middleware of the two files
  have the same text and differ in what the identifier \<^verbatim>\<open>AppError\<close> is bound to, so they
  take this evaluation as a parameter. In \<^verbatim>\<open>part_000\<close> line 6 binds the identifier to the
  required module. \<^verbatim>\<open>index.js\<close> has no such line and no other binding of the identifier:
  the expression throws (\<open>Inl\<close>).
\<close>

type_synonym new_AppError = "string \<Rightarrow> nat \<Rightarrow> js_error + js_error"

definition new_AppError_part0 :: new_AppError where
  "new_AppError_part0 msg st = Inr (AppError msg st)"

definition new_AppError_index :: new_AppError where
  "new_AppError_index msg st = Inl (ReferenceError ''AppError'')"

section \<open>The error middleware\<close>

text \<open>\<^verbatim>\<open>wrapAsync\<close>: a rejection of the wrapped handler is passed to \<^verbatim>\<open>next\<close>.\<close>

definition wrapAsync :: "outcome \<Rightarrow> outcome" where
  "wrapAsync r = (case r of Rejected e \<Rightarrow> Next e | _ \<Rightarrow> r)"

text \<open>\<^verbatim>\<open>handleValidationErr\<close>: the error it returns (\<open>Inr\<close>) or the exception it throws.\<close>

definition handleValidationErr :: "new_AppError \<Rightarrow> js_error \<Rightarrow> js_error + js_error" where
  "handleValidationErr new_AppError err =
     new_AppError (''Validation failed... '' @ interpolate (err_message err)) 400"

text \<open>
  The first error middleware: the error it passes to \<^verbatim>\<open>next\<close>. An exception thrown
  inside an error middleware is caught by Express and passed on in its place.
\<close>

definition classify :: "new_AppError \<Rightarrow> js_error \<Rightarrow> js_error" where
  "classify new_AppError err =
     (if err_name err = ''ValidationError''
      then (case handleValidationErr new_AppError err of
              Inl thrown \<Rightarrow> thrown
            | Inr err' \<Rightarrow> err')
      else err)"

text \<open>The terminal error middleware.\<close>

definition terminal :: "js_error \<Rightarrow> response" where
  "terminal err =
     (let status = dflt 500 (err_status err);
          message = dflt ''Something went wrong'' (err_message err)
      in Send status message)"

text \<open>
  Express after a route handler: an error passed to \<^verbatim>\<open>next\<close> runs through the two error
  middlewares; a rejection that nobody caught gives no response.
\<close>

definition express :: "new_AppError \<Rightarrow> outcome \<Rightarrow> http_result" where
  "express new_AppError r =
     (case r of
        Responded resp \<Rightarrow> Replied resp
      | Next err \<Rightarrow> Replied (terminal (classify new_AppError err))
      | Rejected err \<Rightarrow> Unhandled err)"

text \<open>\<^verbatim>\<open>return next(new AppError(msg, st))\<close> inside an async handler.\<close>

definition next_AppError :: "new_AppError \<Rightarrow> string \<Rightarrow> nat \<Rightarrow> outcome" where
  "next_AppError new_AppError msg st =
     (case new_AppError msg st of Inl thrown \<Rightarrow> Rejected thrown | Inr err \<Rightarrow> Next err)"

section \<open>The object-document mapper\<close>

text \<open>
  Mongoose is a library, not code of the repository: the operations the handlers call are
  modelled here by what they do to the two collections.
\<close>

definition categories :: "string list" where
  "categories = [''fruit'', ''vegetables'', ''dairy'']"

fun join :: "string \<Rightarrow> string list \<Rightarrow> string" where
  "join sep [] = []"
| "join sep [x] = x"
| "join sep (x # y # ys) = x @ sep @ join sep (y # ys)"

text \<open>
  A failed validation: the error Mongoose rejects with. Its name is \<^verbatim>\<open>ValidationError\<close>, it
  has no status, and its message lists the failed paths after a heading.
\<close>

definition ValidationError :: "string \<Rightarrow> (string \<times> string) list \<Rightarrow> js_error" where
  "ValidationError heading errs =
     \<lparr>err_name = ''ValidationError'',
      err_message = Some (heading @ '': '' @ join '', '' (map (\<lambda>(path, msg). path @ '': '' @ msg) errs)),
      err_status = None\<rparr>"

text \<open>
  Modelled from the spec: the schema of \<^verbatim>\<open>./models/product\<close>, absent from the sources. The
  spec gives \<open>name\<close> (string, required), \<open>price\<close> (number, required), \<open>category\<close> (one of
  fruit, vegetables, dairy) and an optional \<open>farm\<close>. A required string fails when it is
  missing or empty.
\<close>

definition check_name :: "string option \<Rightarrow> (string \<times> string) list" where
  "check_name v =
     (if v = None \<or> v = Some [] then [(''name'', ''Path `name` is required.'')] else [])"

definition check_price :: "int option \<Rightarrow> (string \<times> string) list" where
  "check_price v = (if v = None then [(''price'', ''Path `price` is required.'')] else [])"

definition check_category :: "string option \<Rightarrow> (string \<times> string) list" where
  "check_category v =
     (case v of
        None \<Rightarrow> []
      | Some c \<Rightarrow>
          if c \<in> set categories then []
          else [(''category'', ''`'' @ c @ ''` is not a valid enum value for path `category`.'')])"

text \<open>Validation of a whole document, as \<^verbatim>\<open>save\<close> runs it.\<close>

definition validate_product :: "product \<Rightarrow> (string \<times> string) list" where
  "validate_product p = check_name (p_name p) @ check_price (p_price p) @ check_category (p_category p)"

text \<open>
  Validation of an update (\<^verbatim>\<open>runValidators: true\<close>): only the paths the update sets are
  checked. A name sent empty and a price sent empty are set, and refused as required.
\<close>

definition validate_update :: "body \<Rightarrow> (string \<times> string) list" where
  "validate_update b =
     (case b_name b of None \<Rightarrow> [] | Some n \<Rightarrow> check_name (Some n))
     @ (case b_price b of None \<Rightarrow> [] | Some v \<Rightarrow> check_price v)
     @ check_category (b_category b)"

text \<open>The value a document gets for its price: none when the field is absent or \<^verbatim>\<open>null\<close>.\<close>

definition price_value :: "int option option \<Rightarrow> int option" where
  "price_value v = (case v of None \<Rightarrow> None | Some x \<Rightarrow> x)"

text \<open>\<^verbatim>\<open>new Product(fields)\<close>; the constructor assigns the new ObjectId \<open>fresh\<close>.\<close>

definition new_Product :: "oid \<Rightarrow> body \<Rightarrow> product" where
  "new_Product fresh b =
     \<lparr>p_id = fresh, p_name = b_name b, p_price = price_value (b_price b),
      p_category = b_category b, p_farm = b_farm b\<rparr>"

definition Product_find_category :: "string \<Rightarrow> db \<Rightarrow> product list" where
  "Product_find_category c d = filter (\<lambda>p. p_category p = Some c) (products d)"

definition Product_find_all :: "db \<Rightarrow> product list" where
  "Product_find_all d = products d"

text \<open>
  \<^verbatim>\<open>findById\<close> of either model, for a canonical identifier: the document with that
  \<^verbatim>\<open>_id\<close>, or \<^verbatim>\<open>null\<close>.
\<close>

definition Product_findById :: "oid \<Rightarrow> db \<Rightarrow> product option" where
  "Product_findById i d = find (\<lambda>p. p_id p = i) (products d)"

definition Farm_findById :: "oid \<Rightarrow> db \<Rightarrow> farm option" where
  "Farm_findById i d = find (\<lambda>f. f_id f = i) (farms d)"

text \<open>Operations on one document touch the first document that matches.\<close>

fun replace_first :: "('a \<Rightarrow> bool) \<Rightarrow> 'a \<Rightarrow> 'a list \<Rightarrow> 'a list" where
  "replace_first P y [] = []"
| "replace_first P y (x # xs) = (if P x then y # xs else x # replace_first P y xs)"

fun remove_first :: "('a \<Rightarrow> bool) \<Rightarrow> 'a list \<Rightarrow> 'a list" where
  "remove_first P [] = []"
| "remove_first P (x # xs) = (if P x then xs else x # remove_first P xs)"

text \<open>\<^verbatim>\<open>save\<close> of a new product: validate, then insert.\<close>

definition Product_save :: "product \<Rightarrow> db \<Rightarrow> js_error + db" where
  "Product_save p d =
     (case validate_product p of
        [] \<Rightarrow> Inr (d\<lparr>products := products d @ [p]\<rparr>)
      | e # es \<Rightarrow> Inl (ValidationError ''Product validation failed'' (e # es)))"

text \<open>
  \<^verbatim>\<open>save\<close> of a farm read from the collection whose \<open>products\<close> changed: that path has no
  validator, and the stored document is replaced.
\<close>

definition Farm_save :: "farm \<Rightarrow> db \<Rightarrow> db" where
  "Farm_save f d = d\<lparr>farms := replace_first (\<lambda>g. f_id g = f_id f) f (farms d)\<rparr>"

text \<open>The fields an update sets replace the stored ones.\<close>

definition apply_update :: "body \<Rightarrow> product \<Rightarrow> product" where
  "apply_update b p =
     p\<lparr>p_name := (case b_name b of None \<Rightarrow> p_name p | Some n \<Rightarrow> Some n),
       p_price := (case b_price b of None \<Rightarrow> p_price p | Some v \<Rightarrow> v),
       p_category := (case b_category b of None \<Rightarrow> p_category p | Some c \<Rightarrow> Some c),
       p_farm := (case b_farm b of None \<Rightarrow> p_farm p | Some f \<Rightarrow> Some f)\<rparr>"

text \<open>
  \<^verbatim>\<open>findByIdAndUpdate(id, body, { runValidators: true, new: true })\<close>: the update is
  validated first; the result is the updated document, or \<^verbatim>\<open>null\<close>.
\<close>

definition Product_findByIdAndUpdate :: "oid \<Rightarrow> body \<Rightarrow> db \<Rightarrow> js_error + (product option \<times> db)" where
  "Product_findByIdAndUpdate i b d =
     (case validate_update b of
        e # es \<Rightarrow> Inl (ValidationError ''Validation failed'' (e # es))
      | [] \<Rightarrow>
          (case Product_findById i d of
             None \<Rightarrow> Inr (None, d)
           | Some p \<Rightarrow>
               Inr (Some (apply_update b p),
                    d\<lparr>products := replace_first (\<lambda>q. p_id q = i) (apply_update b p) (products d)\<rparr>)))"

definition Product_findByIdAndDelete :: "oid \<Rightarrow> db \<Rightarrow> product option \<times> db" where
  "Product_findByIdAndDelete i d =
     (Product_findById i d, d\<lparr>products := remove_first (\<lambda>q. p_id q = i) (products d)\<rparr>)"

text \<open>\<^verbatim>\<open>Product.deleteMany({ _id: { $in: ids } })\<close>; the call is recorded.\<close>

definition Product_deleteMany_in :: "oid list \<Rightarrow> db \<Rightarrow> db" where
  "Product_deleteMany_in ids d =
     d\<lparr>products := filter (\<lambda>p. p_id p \<notin> set ids) (products d),
       deleteMany_calls := deleteMany_calls d @ [ids]\<rparr>"

text \<open>\<^verbatim>\<open>populate('farm', 'name')\<close>: the owning farm's name, when the reference resolves.\<close>

definition populate_farm_name :: "db \<Rightarrow> product \<Rightarrow> product \<times> string option" where
  "populate_farm_name d p =
     (p, case p_farm p of
           None \<Rightarrow> None
         | Some i \<Rightarrow> map_option f_name (Farm_findById i d))"

section \<open>The cascade rule\<close>

text \<open>
  The hook of \<^verbatim>\<open>src/README.md\<close>, lines 104 to 109, which Mongoose runs after
  \<^verbatim>\<open>findOneAndDelete\<close> with the document the query found, or with \<^verbatim>\<open>null\<close>. Reading
  \<^verbatim>\<open>farm.products\<close> of \<^verbatim>\<open>null\<close> throws.
\<close>

definition farm_post_findOneAndDelete :: "farm option \<Rightarrow> db \<Rightarrow> js_error + db" where
  "farm_post_findOneAndDelete farm d =
     (case farm of
        None \<Rightarrow> Inl (TypeError_of_null ''products'')
      | Some f \<Rightarrow>
          if length (f_products f) \<noteq> 0
          then Inr (Product_deleteMany_in (f_products f) d)
          else Inr d)"

text \<open>\<^verbatim>\<open>Farm.findByIdAndDelete(id)\<close>: the query, then the hook.\<close>

definition Farm_findByIdAndDelete :: "oid \<Rightarrow> db \<Rightarrow> (js_error + farm option) \<times> db" where
  "Farm_findByIdAndDelete i d =
     (let found = Farm_findById i d;
          d1 = d\<lparr>farms := remove_first (\<lambda>g. f_id g = i) (farms d)\<rparr>
      in case farm_post_findOneAndDelete found d1 of
           Inl e \<Rightarrow> (Inl e, d1)
         | Inr d2 \<Rightarrow> (Inr found, d2))"

section \<open>Route handlers\<close>

text \<open>
  Each handler is the body of the function given to the route, before \<^verbatim>\<open>wrapAsync\<close>; it
  returns what the invocation did and the database after it.
\<close>

text \<open>\<^verbatim>\<open>GET /products\<close>, \<^verbatim>\<open>part_000\<close> lines 33 to 42 and \<^verbatim>\<open>index.js\<close> lines 81 to 90 (same text).\<close>

definition get_products :: "string option \<Rightarrow> db \<Rightarrow> outcome" where
  "get_products category d =
     (case category of
        Some c \<Rightarrow>
          if c \<noteq> []
          then Responded (Render ''products/index'' (ProductsIndex (Product_find_category c d) c))
          else Responded (Render ''products/index'' (ProductsIndex (Product_find_all d) ''All''))
      | None \<Rightarrow> Responded (Render ''products/index'' (ProductsIndex (Product_find_all d) ''All'')))"

text \<open>
  \<^verbatim>\<open>POST /products\<close>, \<^verbatim>\<open>part_000\<close> lines 49 to 56. The guard \<^verbatim>\<open>if (!newProduct)\<close> tests an
  object, which is never falsy.
\<close>

definition post_products :: "body \<Rightarrow> oid \<Rightarrow> db \<Rightarrow> outcome \<times> db" where
  "post_products b fresh d =
     (let newProduct = new_Product fresh b
      in case Product_save newProduct d of
           Inl e \<Rightarrow> (Rejected e, d)
         | Inr d' \<Rightarrow> (Responded (Redirect (''/products/'' @ p_id newProduct)), d'))"

text \<open>\<^verbatim>\<open>GET /products/:id\<close>, \<^verbatim>\<open>part_000\<close> lines 59 to 66.\<close>

definition get_products_id_part0 :: "new_AppError \<Rightarrow> oid \<Rightarrow> db \<Rightarrow> outcome" where
  "get_products_id_part0 new_AppError i d =
     (case Product_findById i d of
        None \<Rightarrow> next_AppError new_AppError ''Product not found'' 404
      | Some product \<Rightarrow> Responded (Render ''products/details'' (ProductDetails (Some product))))"

text \<open>\<^verbatim>\<open>GET /products/:id\<close>, \<^verbatim>\<open>index.js\<close> lines 103 to 107: there is no guard.\<close>

definition get_products_id_index :: "oid \<Rightarrow> db \<Rightarrow> outcome" where
  "get_products_id_index i d =
     (let product = map_option (populate_farm_name d) (Product_findById i d)
      in Responded (Render ''products/details'' (ProductDetailsFarm product)))"

text \<open>\<^verbatim>\<open>GET /products/:id/edit\<close>, \<^verbatim>\<open>part_000\<close> lines 69 to 76 and \<^verbatim>\<open>index.js\<close> lines 110 to 117.\<close>

definition get_products_id_edit :: "new_AppError \<Rightarrow> oid \<Rightarrow> db \<Rightarrow> outcome" where
  "get_products_id_edit new_AppError i d =
     (case Product_findById i d of
        None \<Rightarrow> next_AppError new_AppError ''Product not found'' 404
      | Some product \<Rightarrow> Responded (Render ''products/edit'' (ProductEdit product categories)))"

text \<open>\<^verbatim>\<open>PUT /products/:id\<close>, \<^verbatim>\<open>part_000\<close> lines 79 to 86 and \<^verbatim>\<open>index.js\<close> lines 120 to 127.\<close>

definition put_products_id :: "new_AppError \<Rightarrow> oid \<Rightarrow> body \<Rightarrow> db \<Rightarrow> outcome \<times> db" where
  "put_products_id new_AppError i b d =
     (case Product_findByIdAndUpdate i b d of
        Inl e \<Rightarrow> (Rejected e, d)
      | Inr (None, d') \<Rightarrow> (next_AppError new_AppError ''Product not found'' 404, d')
      | Inr (Some product, d') \<Rightarrow> (Responded (Redirect (''/products/'' @ p_id product)), d'))"

text \<open>\<^verbatim>\<open>DELETE /products/:id\<close>, \<^verbatim>\<open>part_000\<close> lines 88 to 95 and \<^verbatim>\<open>index.js\<close> lines 129 to 136.\<close>

definition delete_products_id :: "new_AppError \<Rightarrow> oid \<Rightarrow> db \<Rightarrow> outcome \<times> db" where
  "delete_products_id new_AppError i d =
     (case Product_findByIdAndDelete i d of
        (None, d') \<Rightarrow> (next_AppError new_AppError ''Product not found'' 404, d')
      | (Some deletedProduct, d') \<Rightarrow> (Responded (Redirect ''/products''), d'))"

text \<open>
  \<^verbatim>\<open>POST /farms/:id/products\<close>, \<^verbatim>\<open>index.js\<close> lines 61 to 71. With no farm, line 66 reads
  \<^verbatim>\<open>products\<close> of \<^verbatim>\<open>null\<close> and throws before anything is written. Otherwise the farm is
  saved first, the product second.
\<close>

definition post_farms_id_products :: "oid \<Rightarrow> body \<Rightarrow> oid \<Rightarrow> db \<Rightarrow> outcome \<times> db" where
  "post_farms_id_products i b fresh d =
     (case Farm_findById i d of
        None \<Rightarrow> (Rejected (TypeError_of_null ''products''), d)
      | Some farm \<Rightarrow>
          (let product = new_Product fresh
                 \<lparr>b_name = b_name b, b_price = b_price b, b_category = b_category b, b_farm = None\<rparr>;
               farm' = farm\<lparr>f_products := f_products farm @ [p_id product]\<rparr>;
               product' = product\<lparr>p_farm := Some (f_id farm')\<rparr>;
               d1 = Farm_save farm' d
           in case Product_save product' d1 of
                Inl e \<Rightarrow> (Rejected e, d1)
              | Inr d2 \<Rightarrow> (Responded (Redirect (''/farms/'' @ i)), d2)))"

text \<open>\<^verbatim>\<open>DELETE /farms/:id\<close>, \<^verbatim>\<open>index.js\<close> lines 73 to 76.\<close>

definition delete_farms_id :: "oid \<Rightarrow> db \<Rightarrow> outcome \<times> db" where
  "delete_farms_id i d =
     (case Farm_findByIdAndDelete i d of
        (Inl e, d') \<Rightarrow> (Rejected e, d')
      | (Inr farm, d') \<Rightarrow> (Responded (Redirect ''/farms''), d'))"

section \<open>The routes of the two applications\<close>

text \<open>
  A route is its handler as registered (wrapped in \<^verbatim>\<open>wrapAsync\<close> or not) followed by the
  error middleware of its file.
\<close>

definition on_fst :: "('a \<Rightarrow> 'b) \<Rightarrow> 'a \<times> 'c \<Rightarrow> 'b \<times> 'c" where
  "on_fst g r = (g (fst r), snd r)"

definition GET_products_part0 :: "string option \<Rightarrow> db \<Rightarrow> http_result" where
  "GET_products_part0 category d = express new_AppError_part0 (get_products category d)"

definition GET_products_index :: "string option \<Rightarrow> db \<Rightarrow> http_result" where
  "GET_products_index category d = express new_AppError_index (get_products category d)"

definition POST_products_part0 :: "body \<Rightarrow> oid \<Rightarrow> db \<Rightarrow> http_result \<times> db" where
  "POST_products_part0 b fresh d =
     on_fst (\<lambda>r. express new_AppError_part0 (wrapAsync r)) (post_products b fresh d)"

definition GET_products_id_part0 :: "oid \<Rightarrow> db \<Rightarrow> http_result" where
  "GET_products_id_part0 i d =
     express new_AppError_part0 (wrapAsync (get_products_id_part0 new_AppError_part0 i d))"

definition GET_products_id_index :: "oid \<Rightarrow> db \<Rightarrow> http_result" where
  "GET_products_id_index i d =
     express new_AppError_index (wrapAsync (get_products_id_index i d))"

definition GET_products_id_edit_part0 :: "oid \<Rightarrow> db \<Rightarrow> http_result" where
  "GET_products_id_edit_part0 i d =
     express new_AppError_part0 (wrapAsync (get_products_id_edit new_AppError_part0 i d))"


definition PUT_products_id_part0 :: "oid \<Rightarrow> body \<Rightarrow> db \<Rightarrow> http_result \<times> db" where
  "PUT_products_id_part0 i b d =
     on_fst (\<lambda>r. express new_AppError_part0 (wrapAsync r)) (put_products_id new_AppError_part0 i b d)"

definition PUT_products_id_index :: "oid \<Rightarrow> body \<Rightarrow> db \<Rightarrow> http_result \<times> db" where
  "PUT_products_id_index i b d =
     on_fst (\<lambda>r. express new_AppError_index (wrapAsync r)) (put_products_id new_AppError_index i b d)"

definition DELETE_products_id_part0 :: "oid \<Rightarrow> db \<Rightarrow> http_result \<times> db" where
  "DELETE_products_id_part0 i d =
     on_fst (\<lambda>r. express new_AppError_part0 (wrapAsync r)) (delete_products_id new_AppError_part0 i d)"


definition POST_farms_id_products :: "oid \<Rightarrow> body \<Rightarrow> oid \<Rightarrow> db \<Rightarrow> http_result \<times> db" where
  "POST_farms_id_products i b fresh d =
     on_fst (\<lambda>r. express new_AppError_index (wrapAsync r)) (post_farms_id_products i b fresh d)"

definition DELETE_farms_id :: "oid \<Rightarrow> db \<Rightarrow> http_result \<times> db" where
  "DELETE_farms_id i d = on_fst (express new_AppError_index) (delete_farms_id i d)"

section \<open>Sample data\<close>

text \<open>
  A small database used to run the routes: a farm that owns two products, a farm that
  owns none (the one printed in \<^verbatim>\<open>src/README.md\<close>), and a product without a farm.
\<close>

definition milk :: product where
  "milk = \<lparr>p_id = ''6112fe023f3df792b5f72401'', p_name = Some ''Milk'', p_price = Some 2,
           p_category = Some ''dairy'', p_farm = Some ''6112fe023f3df792b5f72350''\<rparr>"

definition kale :: product where
  "kale = \<lparr>p_id = ''6112fe023f3df792b5f72402'', p_name = Some ''Kale'', p_price = Some 3,
           p_category = Some ''vegetables'', p_farm = Some ''6112fe023f3df792b5f72350''\<rparr>"

definition pear :: product where
  "pear = \<lparr>p_id = ''6112fe023f3df792b5f72403'', p_name = Some ''Pear'', p_price = Some 1,
           p_category = Some ''fruit'', p_farm = None\<rparr>"

definition full_farm :: farm where
  "full_farm = \<lparr>f_id = ''6112fe023f3df792b5f72350'', f_name = ''Full farm'', f_city = ''Test'',
                f_email = ''Full@test.com'',
                f_products = [''6112fe023f3df792b5f72401'', ''6112fe023f3df792b5f72402'']\<rparr>"

definition test_farm :: farm where
  "test_farm = \<lparr>f_id = ''6112fe023f3df792b5f72351'', f_name = ''Test farm'', f_city = ''Test'',
                f_email = ''Test@test.com'', f_products = []\<rparr>"

definition stand :: db where
  "stand = \<lparr>products = [milk, kale, pear], farms = [full_farm, test_farm], deleteMany_calls = []\<rparr>"

text \<open>An identifier that no document of \<open>stand\<close> has.\<close>

definition absent_id :: oid where
  "absent_id = ''6112fe023f3df792b5f72999''"

definition cheese_fields :: body where
  "cheese_fields = \<lparr>b_name = Some ''Cheese'', b_price = Some (Some 5), b_category = Some ''dairy'', b_farm = None\<rparr>"

definition nameless_fields :: body where
  "nameless_fields = \<lparr>b_name = None, b_price = Some (Some 5), b_category = Some ''dairy'', b_farm = None\<rparr>"

section \<open>Facts about the collections\<close>

lemmas sample_defs = milk_def kale_def pear_def full_farm_def test_farm_def stand_def
  absent_id_def cheese_fields_def nameless_fields_def

lemma find_Some_holds: "find P xs = Some x \<Longrightarrow> P x"
  by (induction xs) (auto split: if_splits)

lemma find_replace_first:
  "find P xs = Some x \<Longrightarrow> P y \<Longrightarrow> find P (replace_first P y xs) = Some y"
  by (induction xs) (auto split: if_splits)

lemma find_append_fresh:
  "find P xs = None \<Longrightarrow> P y \<Longrightarrow> find P (xs @ [y]) = Some y"
  by (induction xs) (auto split: if_splits)


lemma Product_findById_deleteMany:
  "pid \<in> set ids \<Longrightarrow> Product_findById pid (Product_deleteMany_in ids d) = None"
  unfolding Product_findById_def Product_deleteMany_in_def
  by (auto simp: find_None_iff)

lemma stand_has_full_farm: "Farm_findById (f_id full_farm) stand = Some full_farm"
  by (simp add: Farm_findById_def sample_defs)

lemma stand_has_test_farm: "Farm_findById (f_id test_farm) stand = Some test_farm"
  by (simp add: Farm_findById_def sample_defs)

lemma stand_lacks_product: "Product_findById absent_id stand = None"
  by (simp add: Product_findById_def sample_defs)

lemma stand_lacks_farm: "Farm_findById absent_id stand = None"
  by (simp add: Farm_findById_def sample_defs)


lemma absent_id_canonical: "canonical_ObjectId absent_id"
  by (simp add: canonical_ObjectId_def hex_digits_def absent_id_def)

section \<open>The cascade on farm deletion\<close>

text \<open>
  C1. For every farm of the collection, after \<^verbatim>\<open>DELETE /farms/:id\<close> has run (the query and
  its hook), the route has redirected to \<^verbatim>\<open>/farms\<close> and none of the products the farm
  referenced can be found by its identifier.
\<close>

theorem farm_delete_cascades:
  assumes "Farm_findById i d = Some f"
  shows "fst (DELETE_farms_id i d) = Replied (Redirect ''/farms'')
         \<and> (\<forall>pid \<in> set (f_products f). Product_findById pid (snd (DELETE_farms_id i d)) = None)"
proof (cases "f_products f = []")
  case True
  with assms show ?thesis
    by (simp add: DELETE_farms_id_def on_fst_def delete_farms_id_def Farm_findByIdAndDelete_def
        farm_post_findOneAndDelete_def express_def Let_def)
next
  case False
  with assms show ?thesis
    by (simp add: DELETE_farms_id_def on_fst_def delete_farms_id_def Farm_findByIdAndDelete_def
        farm_post_findOneAndDelete_def express_def Let_def Product_findById_deleteMany)
qed

theorem farm_delete_cascades_witness:
  "Farm_findById (f_id full_farm) stand = Some full_farm
   \<and> f_products full_farm = [p_id milk, p_id kale]
   \<and> Product_findById (p_id milk) stand = Some milk
   \<and> Product_findById (p_id kale) stand = Some kale
   \<and> fst (DELETE_farms_id (f_id full_farm) stand) = Replied (Redirect ''/farms'')
   \<and> Product_findById (p_id milk) (snd (DELETE_farms_id (f_id full_farm) stand)) = None
   \<and> Product_findById (p_id kale) (snd (DELETE_farms_id (f_id full_farm) stand)) = None
   \<and> Product_findById (p_id pear) (snd (DELETE_farms_id (f_id full_farm) stand)) = Some pear"
proof -
  have "f_products full_farm = [p_id milk, p_id kale]"
    by (simp add: sample_defs)
  moreover have "Product_findById (p_id milk) stand = Some milk"
    by (simp add: Product_findById_def sample_defs)
  moreover have "Product_findById (p_id kale) stand = Some kale"
    by (simp add: Product_findById_def sample_defs)
  moreover have "Product_findById (p_id pear) (snd (DELETE_farms_id (f_id full_farm) stand)) = Some pear"
    by (simp add: DELETE_farms_id_def on_fst_def delete_farms_id_def Farm_findByIdAndDelete_def
        farm_post_findOneAndDelete_def Product_deleteMany_in_def Product_findById_def Let_def
        Farm_findById_def sample_defs)
  ultimately show ?thesis
    using stand_has_full_farm farm_delete_cascades [OF stand_has_full_farm] by simp
qed

text \<open>
  C7. For every farm of the collection whose \<open>products\<close> is empty, the hook returns the
  database as it got it, and after \<^verbatim>\<open>DELETE /farms/:id\<close> the product collection and the
  list of \<^verbatim>\<open>deleteMany\<close> calls are what they were: no bulk delete was issued.
\<close>

theorem farm_delete_without_products_no_deleteMany:
  assumes "Farm_findById i d = Some f" and "f_products f = []"
  shows "farm_post_findOneAndDelete (Some f) d = Inr d
         \<and> products (snd (DELETE_farms_id i d)) = products d
         \<and> deleteMany_calls (snd (DELETE_farms_id i d)) = deleteMany_calls d"
  using assms
  by (simp add: DELETE_farms_id_def on_fst_def delete_farms_id_def Farm_findByIdAndDelete_def
      farm_post_findOneAndDelete_def Let_def)

theorem farm_delete_without_products_no_deleteMany_witness:
  "Farm_findById (f_id test_farm) stand = Some test_farm \<and> f_products test_farm = []
   \<and> farm_post_findOneAndDelete (Some test_farm) stand = Inr stand
   \<and> products (snd (DELETE_farms_id (f_id test_farm) stand)) = products stand
   \<and> deleteMany_calls (snd (DELETE_farms_id (f_id test_farm) stand)) = deleteMany_calls stand"
proof -
  have e: "f_products test_farm = []"
    by (simp add: test_farm_def)
  show ?thesis
    using stand_has_test_farm e
      farm_delete_without_products_no_deleteMany [OF stand_has_test_farm e]
    by simp
qed

text \<open>
  With products, the hook does issue the call: one \<^verbatim>\<open>deleteMany\<close> with the farm's list.
\<close>

lemma farm_delete_with_products_one_deleteMany:
  "deleteMany_calls (snd (DELETE_farms_id (f_id full_farm) stand)) = [f_products full_farm]"
  by (simp add: DELETE_farms_id_def on_fst_def delete_farms_id_def Farm_findByIdAndDelete_def
      farm_post_findOneAndDelete_def Product_deleteMany_in_def Let_def Farm_findById_def
      sample_defs)

section \<open>Adding a product to a farm\<close>

lemma post_farms_id_products_redirect:
  assumes "Farm_findById i d = Some f"
    and "POST_farms_id_products i b fresh d = (Replied (Redirect r), d')"
  shows "d' = (Farm_save (f\<lparr>f_products := f_products f @ [fresh]\<rparr>) d)
              \<lparr>products := products d @
                 [\<lparr>p_id = fresh, p_name = b_name b, p_price = price_value (b_price b),
                   p_category = b_category b, p_farm = Some (f_id f)\<rparr>]\<rparr>"
  using assms
  by (auto simp: POST_farms_id_products_def on_fst_def post_farms_id_products_def Let_def
      Product_save_def new_Product_def Farm_save_def express_def wrapAsync_def terminal_def
      split: sum.splits list.splits)

text \<open>With fields that pass validation the two writes are made and the route redirects.\<close>

lemma post_farms_id_products_valid:
  assumes "Farm_findById i d = Some f"
    and "check_name (b_name b) = []" and "check_price (price_value (b_price b)) = []"
    and "check_category (b_category b) = []"
  shows "fst (POST_farms_id_products i b fresh d) = Replied (Redirect (''/farms/'' @ i))"
  using assms
  by (simp add: POST_farms_id_products_def on_fst_def post_farms_id_products_def Let_def
      Product_save_def new_Product_def validate_product_def express_def wrapAsync_def)

text \<open>
  C4. For every farm of the collection and every new identifier, once
  \<^verbatim>\<open>POST /farms/:id/products\<close> has completed (it has redirected, which it does after the
  second write only), the stored product's \<open>farm\<close> is the farm's identifier and the
  stored farm's \<open>products\<close> contains the product's identifier.
\<close>

theorem add_product_links_both_sides:
  assumes "Farm_findById i d = Some f"
    and "Product_findById fresh d = None"
    and "POST_farms_id_products i b fresh d = (Replied (Redirect r), d')"
  shows "\<exists>p f'. Product_findById fresh d' = Some p \<and> p_farm p = Some i
                \<and> Farm_findById i d' = Some f' \<and> f_id f' = i \<and> fresh \<in> set (f_products f')"
proof -
  have fid: "f_id f = i"
    using assms(1) unfolding Farm_findById_def by (rule find_Some_holds)
  note d' = post_farms_id_products_redirect [OF assms(1) assms(3)]
  have "Product_findById fresh d' =
          Some \<lparr>p_id = fresh, p_name = b_name b, p_price = price_value (b_price b),
                p_category = b_category b, p_farm = Some (f_id f)\<rparr>"
    using assms(2) by (simp add: d' Product_findById_def Farm_save_def find_append_fresh)
  moreover have "Farm_findById i d' = Some (f\<lparr>f_products := f_products f @ [fresh]\<rparr>)"
    using assms(1) fid
    by (simp add: d' Farm_findById_def Farm_save_def find_replace_first)
  ultimately show ?thesis using fid by simp
qed

theorem add_product_links_both_sides_witness:
  "Farm_findById (f_id test_farm) stand = Some test_farm
   \<and> Product_findById absent_id stand = None
   \<and> fst (POST_farms_id_products (f_id test_farm) cheese_fields absent_id stand) =
       Replied (Redirect ''/farms/6112fe023f3df792b5f72351'')
   \<and> (\<exists>p f'. Product_findById absent_id
                (snd (POST_farms_id_products (f_id test_farm) cheese_fields absent_id stand)) = Some p
          \<and> p_farm p = Some (f_id test_farm)
          \<and> Farm_findById (f_id test_farm)
                (snd (POST_farms_id_products (f_id test_farm) cheese_fields absent_id stand)) = Some f'
          \<and> f_id f' = f_id test_farm
          \<and> absent_id \<in> set (f_products f'))"
proof -
  have h3: "fst (POST_farms_id_products (f_id test_farm) cheese_fields absent_id stand) =
       Replied (Redirect ''/farms/6112fe023f3df792b5f72351'')"
    using post_farms_id_products_valid [OF stand_has_test_farm, of cheese_fields absent_id]
    by (simp add: check_name_def check_price_def price_value_def check_category_def
        categories_def cheese_fields_def test_farm_def)
  have h4: "POST_farms_id_products (f_id test_farm) cheese_fields absent_id stand =
       (Replied (Redirect ''/farms/6112fe023f3df792b5f72351''),
        snd (POST_farms_id_products (f_id test_farm) cheese_fields absent_id stand))"
    using h3 by (simp add: prod_eq_iff)
  show ?thesis
    using stand_has_test_farm stand_lacks_product h3
      add_product_links_both_sides [OF stand_has_test_farm stand_lacks_product h4]
    by simp
qed

text \<open>
  When the second write is refused, the first has been made: the farm lists a product that
  is in no collection. This is the gap between the two writes.
\<close>

lemma post_farms_id_products_partial_write:
  "Farm_findById (f_id test_farm) (snd (POST_farms_id_products (f_id test_farm) nameless_fields absent_id stand))
     = Some (test_farm\<lparr>f_products := [absent_id]\<rparr>)
   \<and> Product_findById absent_id
        (snd (POST_farms_id_products (f_id test_farm) nameless_fields absent_id stand)) = None"
  by (simp add: POST_farms_id_products_def on_fst_def post_farms_id_products_def Let_def
      Product_save_def new_Product_def validate_product_def check_name_def check_price_def
      price_value_def check_category_def categories_def Farm_save_def Farm_findById_def
      Product_findById_def sample_defs)

section \<open>Listing, creating and fetching products\<close>

text \<open>
  C5. \<^verbatim>\<open>GET /products\<close>, in both applications: with no \<open>category\<close> argument the view gets
  every product of the collection and the label \<open>All\<close>; with \<open>category=dairy\<close> it gets
  exactly the products whose category is \<open>dairy\<close>.
\<close>

theorem get_products_listing:
  "GET_products_part0 None d = Replied (Render ''products/index'' (ProductsIndex (products d) ''All''))
   \<and> GET_products_index None d = Replied (Render ''products/index'' (ProductsIndex (products d) ''All''))
   \<and> GET_products_part0 (Some ''dairy'') d =
       Replied (Render ''products/index''
         (ProductsIndex (filter (\<lambda>p. p_category p = Some ''dairy'') (products d)) ''dairy''))
   \<and> GET_products_index (Some ''dairy'') d =
       Replied (Render ''products/index''
         (ProductsIndex (filter (\<lambda>p. p_category p = Some ''dairy'') (products d)) ''dairy''))"
  by (simp add: GET_products_part0_def GET_products_index_def express_def get_products_def
      Product_find_all_def Product_find_category_def)

lemma validate_missing_required:
  "b_name b = None \<or> b_price b = None \<Longrightarrow> validate_product (new_Product fresh b) \<noteq> []"
  by (auto simp: validate_product_def new_Product_def check_name_def check_price_def
      price_value_def)

text \<open>
  C2. \<^verbatim>\<open>POST /products\<close> of \<^verbatim>\<open>part_000\<close>: when the body lacks \<open>name\<close> or \<open>price\<close>, the save is
  rejected with an error named \<^verbatim>\<open>ValidationError\<close>, nothing is stored, and the response has
  status 400 and a body that is \<open>Validation failed... \<close> followed by the message of that
  error.
\<close>

theorem post_products_missing_required_400:
  assumes "b_name b = None \<or> b_price b = None"
  shows "\<exists>e m. Product_save (new_Product fresh b) d = Inl e
               \<and> err_name e = ''ValidationError'' \<and> err_message e = Some m
               \<and> POST_products_part0 b fresh d =
                   (Replied (Send 400 (''Validation failed... '' @ m)), d)"
proof -
  obtain x xs where v: "validate_product (new_Product fresh b) = x # xs"
    using validate_missing_required [OF assms]
    by (cases "validate_product (new_Product fresh b)") auto
  show ?thesis
    by (simp add: POST_products_part0_def on_fst_def post_products_def Product_save_def v
        wrapAsync_def express_def classify_def ValidationError_def handleValidationErr_def
        new_AppError_part0_def AppError_def terminal_def dflt_def interpolate_def Let_def)
qed

theorem post_products_missing_required_400_witness:
  "(b_name nameless_fields = None \<or> b_price nameless_fields = None)
   \<and> (\<exists>e m. Product_save (new_Product absent_id nameless_fields) stand = Inl e
          \<and> err_name e = ''ValidationError'' \<and> err_message e = Some m
          \<and> POST_products_part0 nameless_fields absent_id stand =
              (Replied (Send 400 (''Validation failed... '' @ m)), stand))"
  using post_products_missing_required_400 [of nameless_fields absent_id stand]
  by (simp add: nameless_fields_def)

text \<open>The body of that response, in full.\<close>

lemma post_products_nameless_body:
  "fst (POST_products_part0 nameless_fields absent_id stand) =
     Replied (Send 400
       ''Validation failed... Product validation failed: name: Path `name` is required.'')"
  by (simp add: POST_products_part0_def on_fst_def post_products_def Product_save_def
      validate_product_def new_Product_def check_name_def check_price_def price_value_def
      check_category_def categories_def wrapAsync_def express_def classify_def ValidationError_def
      handleValidationErr_def new_AppError_part0_def AppError_def terminal_def dflt_def
      interpolate_def Let_def nameless_fields_def)

text \<open>\<^verbatim>\<open>GET /products/:id\<close> of \<^verbatim>\<open>part_000\<close> answers 404 for an identifier of no product.\<close>

lemma get_products_id_part0_not_found:
  "Product_findById i d = None \<Longrightarrow>
     GET_products_id_part0 i d = Replied (Send 404 ''Product not found'')"
  by (simp add: GET_products_id_part0_def get_products_id_part0_def express_def wrapAsync_def
      next_AppError_def new_AppError_part0_def classify_def AppError_def terminal_def dflt_def)

text \<open>
  C3. \<^verbatim>\<open>GET /products/:id\<close> of \<^verbatim>\<open>index.js\<close>, for an identifier of no product: the handler
  has no guard and renders the details view with \<^verbatim>\<open>null\<close> for the product; it does not
  answer 404.
\<close>

theorem get_products_id_index_absent_renders:
  "Product_findById absent_id stand = None
   \<and> GET_products_id_index absent_id stand =
       Replied (Render ''products/details'' (ProductDetailsFarm None))
   \<and> GET_products_id_index absent_id stand \<noteq> Replied (Send 404 ''Product not found'')"
  by (simp add: GET_products_id_index_def get_products_id_index_def express_def wrapAsync_def
      Product_findById_def sample_defs)

section \<open>Updating a product\<close>

lemma put_products_id_updates:
  assumes "Product_findById i d = Some p" and "validate_update b = []"
  shows "put_products_id new_AppError i b d =
           (Responded (Redirect (''/products/'' @ i)),
            d\<lparr>products := replace_first (\<lambda>q. p_id q = i) (apply_update b p) (products d)\<rparr>)"
proof -
  have "p_id p = i"
    using assms(1) unfolding Product_findById_def by (rule find_Some_holds)
  then show ?thesis
    using assms by (simp add: put_products_id_def Product_findByIdAndUpdate_def apply_update_def)
qed

text \<open>
  In both applications an update that passes validation, of a product of the collection,
  stores every field the body gives and redirects to the product's detail path.
\<close>

lemma PUT_products_id_persists:
  assumes "Product_findById i d = Some p" and "validate_update b = []"
  shows "fst (PUT_products_id_part0 i b d) = Replied (Redirect (''/products/'' @ i))"
    and "fst (PUT_products_id_index i b d) = Replied (Redirect (''/products/'' @ i))"
    and "Product_findById i (snd (PUT_products_id_part0 i b d)) = Some (apply_update b p)"
    and "Product_findById i (snd (PUT_products_id_index i b d)) = Some (apply_update b p)"
proof -
  have pid: "p_id (apply_update b p) = i"
    using find_Some_holds [OF assms(1) [unfolded Product_findById_def]]
    by (simp add: apply_update_def)
  have f: "find (\<lambda>q. p_id q = i) (replace_first (\<lambda>q. p_id q = i) (apply_update b p) (products d))
             = Some (apply_update b p)"
    using assms(1) pid unfolding Product_findById_def by (rule find_replace_first)
  show "fst (PUT_products_id_part0 i b d) = Replied (Redirect (''/products/'' @ i))"
    by (simp add: PUT_products_id_part0_def on_fst_def put_products_id_updates [OF assms]
        express_def wrapAsync_def)
  show "fst (PUT_products_id_index i b d) = Replied (Redirect (''/products/'' @ i))"
    by (simp add: PUT_products_id_index_def on_fst_def put_products_id_updates [OF assms]
        express_def wrapAsync_def)
  show "Product_findById i (snd (PUT_products_id_part0 i b d)) = Some (apply_update b p)"
    by (simp add: PUT_products_id_part0_def on_fst_def put_products_id_updates [OF assms]
        Product_findById_def f)
  show "Product_findById i (snd (PUT_products_id_index i b d)) = Some (apply_update b p)"
    by (simp add: PUT_products_id_index_def on_fst_def put_products_id_updates [OF assms]
        Product_findById_def f)
qed

lemma apply_update_fields:
  "b_name b = Some n \<Longrightarrow> p_name (apply_update b p) = Some n"
  "b_price b = Some (Some k) \<Longrightarrow> p_price (apply_update b p) = Some k"
  "b_category b = Some c \<Longrightarrow> p_category (apply_update b p) = Some c"
  by (simp_all add: apply_update_def)

text \<open>The update is validated: an empty name or a category outside the list is refused.\<close>

lemma validate_update_refuses:
  "b_name b = Some [] \<Longrightarrow> validate_update b \<noteq> []"
  "b_price b = Some None \<Longrightarrow> validate_update b \<noteq> []"
  "b_category b = Some c \<Longrightarrow> c \<notin> set categories \<Longrightarrow> validate_update b \<noteq> []"
  by (simp_all add: validate_update_def check_name_def check_price_def check_category_def)

text \<open>In \<^verbatim>\<open>part_000\<close> an identifier of no product gives the 404 of the guard.\<close>

lemma PUT_products_id_part0_not_found:
  assumes "Product_findById i d = None" and "validate_update b = []"
  shows "PUT_products_id_part0 i b d = (Replied (Send 404 ''Product not found''), d)"
  using assms
  by (simp add: PUT_products_id_part0_def on_fst_def put_products_id_def
      Product_findByIdAndUpdate_def next_AppError_def new_AppError_part0_def express_def
      wrapAsync_def classify_def AppError_def terminal_def dflt_def)

text \<open>
  C6. \<^verbatim>\<open>PUT /products/:id\<close> of \<^verbatim>\<open>index.js\<close>, valid fields, an identifier of no product: the
  guard evaluates \<^verbatim>\<open>new AppError(...)\<close> with \<^verbatim>\<open>AppError\<close> unbound, the handler rejects with
  a ReferenceError, and the response is status 500, not the 404 of a not-found error.
\<close>

theorem put_products_id_index_absent_500:
  "Product_findById absent_id stand = None \<and> validate_update cheese_fields = []
   \<and> put_products_id new_AppError_index absent_id cheese_fields stand =
        (Rejected (ReferenceError ''AppError''), stand)
   \<and> PUT_products_id_index absent_id cheese_fields stand =
        (Replied (Send 500 ''AppError is not defined''), stand)"
  by (simp add: PUT_products_id_index_def on_fst_def put_products_id_def
      Product_findByIdAndUpdate_def next_AppError_def new_AppError_index_def express_def
      wrapAsync_def classify_def ReferenceError_def terminal_def dflt_def
      validate_update_def check_name_def check_price_def check_category_def categories_def
      Product_findById_def sample_defs)

section \<open>The error responses\<close>

text \<open>
  C8. The terminal error middleware (same text in both files): the status of the response
  is the error's \<open>status\<close> when it has one and 500 otherwise; the body is the error's
  \<open>message\<close> when it has one and \<open>Something went wrong\<close> otherwise, and nothing else.
\<close>

theorem terminal_status_and_body:
  "terminal err =
     Send (case err_status err of None \<Rightarrow> 500 | Some s \<Rightarrow> s)
          (case err_message err of None \<Rightarrow> ''Something went wrong'' | Some m \<Rightarrow> m)"
  by (simp add: terminal_def dflt_def)






text \<open>
  Whatever the wording of the engine's message, it is the body of the response: an error
  that is not a validation error and has a message and no status is answered with status
  500 and that message.
\<close>

lemma terminal_engine_error:
  assumes "err_name e \<noteq> ''ValidationError''" and "err_status e = None"
    and "err_message e = Some m"
  shows "express new_AppError (wrapAsync (Rejected e)) = Replied (Send 500 m)"
  using assms by (simp add: express_def wrapAsync_def classify_def terminal_def dflt_def)

lemma null_read_messages_not_default:
  "null_read_message prop \<noteq> ''Something went wrong''"
  "null_read_message_before_9_3 prop \<noteq> ''Something went wrong''"
  by (simp_all add: null_read_message_def null_read_message_before_9_3_def)

text \<open>
  C10, as stated, fails: with a canonical identifier of no farm,
  \<^verbatim>\<open>POST /farms/:id/products\<close> does not answer with the body \<open>Something went wrong\<close>. A
  TypeError has a message.
\<close>

theorem add_product_no_farm_body_not_default:
  "canonical_ObjectId absent_id
   \<and> Farm_findById absent_id stand = None
   \<and> fst (POST_farms_id_products absent_id cheese_fields absent_id stand)
       \<noteq> Replied (Send 500 ''Something went wrong'')"
  by (simp add: POST_farms_id_products_def on_fst_def post_farms_id_products_def express_def
      wrapAsync_def classify_def TypeError_of_null_def null_read_message_def terminal_def
      dflt_def Farm_findById_def canonical_ObjectId_def hex_digits_def sample_defs)

text \<open>
  C10, amended. For every canonical identifier (24 lower-case hexadecimal digits) of no
  farm, the handler of \<^verbatim>\<open>POST /farms/:id/products\<close> rejects with a TypeError (reading
  \<open>products\<close> of \<^verbatim>\<open>null\<close>) that has a message and no status, writes nothing, and the
  response has status 500 and that error's message as its body, which is a string other
  than \<open>Something went wrong\<close>; it is not a 404.
\<close>

theorem add_product_no_farm_type_error:
  assumes "canonical_ObjectId i" and "Farm_findById i d = None"
  shows "\<exists>e m. post_farms_id_products i b fresh d = (Rejected e, d)
              \<and> err_name e = ''TypeError'' \<and> err_status e = None
              \<and> err_message e = Some m
              \<and> m \<noteq> ''Something went wrong''
              \<and> POST_farms_id_products i b fresh d = (Replied (Send 500 m), d)"
proof -
  let ?e = "TypeError_of_null ''products''"
  have h: "post_farms_id_products i b fresh d = (Rejected ?e, d)"
    using assms(2) by (simp add: post_farms_id_products_def)
  have n: "err_name ?e = ''TypeError''" and s: "err_status ?e = None"
    and m: "err_message ?e = Some (null_read_message ''products'')"
    by (simp_all add: TypeError_of_null_def)
  have "express new_AppError_index (wrapAsync (Rejected ?e))
          = Replied (Send 500 (null_read_message ''products''))"
    using s m by (intro terminal_engine_error) (simp_all add: n)
  then have r: "POST_farms_id_products i b fresh d
                  = (Replied (Send 500 (null_read_message ''products'')), d)"
    by (simp add: POST_farms_id_products_def on_fst_def h)
  from h n s m r null_read_messages_not_default(1) show ?thesis by blast
qed

theorem add_product_no_farm_type_error_witness:
  "canonical_ObjectId absent_id
   \<and> Farm_findById absent_id stand = None
   \<and> (\<exists>e m. post_farms_id_products absent_id cheese_fields absent_id stand = (Rejected e, stand)
          \<and> err_name e = ''TypeError'' \<and> err_status e = None
          \<and> err_message e = Some m
          \<and> m \<noteq> ''Something went wrong''
          \<and> POST_farms_id_products absent_id cheese_fields absent_id stand =
              (Replied (Send 500 m), stand))"
  using absent_id_canonical stand_lacks_farm
    add_product_no_farm_type_error
      [OF absent_id_canonical stand_lacks_farm, of cheese_fields absent_id]
  by simp

end
